theory Spec2Isabelle
  imports Complex_Main
begin

section \<open>Growth Momentum DCA strategy: the indicator library\<close>

text \<open>
  A shallow embedding of \<^verbatim>\<open>strategy.py\<close>: a dollar-cost-averaging script that buys the
  symbols of a fixed universe that trade above their 20-day average, unless the market
  looks risky. Prices are Python floats; they are modelled as exact reals, so rounding
  and overflow of IEEE arithmetic are outside this development.

  The module constants:
\<close>

definition SYMBOLS :: "string list" where
  "SYMBOLS = [''NVDA'', ''TSLA'', ''AMD'', ''QBTS'', ''RKLB'']"

definition DCA_AMOUNT :: real where
  "DCA_AMOUNT = 100"

definition SMA_PERIOD :: int where
  "SMA_PERIOD = 20"

definition RSI_PERIOD :: int where
  "RSI_PERIOD = 14"

definition RSI_THRESHOLD :: real where
  "RSI_THRESHOLD = 75"

definition VIX_THRESHOLD :: real where
  "VIX_THRESHOLD = 25"

text \<open>
  A float result is a finite number or NaN: \<^verbatim>\<open>np.mean\<close> of an empty slice is NaN
  (with a warning, not an exception), and NaN then propagates through the arithmetic and
  makes every comparison false.
\<close>

datatype pyfloat = Flt real | NaN

fun gt :: "pyfloat \<Rightarrow> pyfloat \<Rightarrow> bool" where
  "gt (Flt x) (Flt y) = (x > y)"
| "gt _ _ = False"

text \<open>
  Python's \<^verbatim>\<open>xs[k:]\<close>: a negative start counts from the end and is clipped at 0, a
  start beyond the end is clipped at the length.
\<close>

definition slice_from :: "'a list \<Rightarrow> int \<Rightarrow> 'a list" where
  "slice_from xs k =
     (let n = int (length xs);
          start = (if k < 0 then max (k + n) 0 else min k n)
      in drop (nat start) xs)"

definition np_mean :: "real list \<Rightarrow> pyfloat" where
  "np_mean xs = (if xs = [] then NaN else Flt (sum_list xs / real (length xs)))"

text \<open>\<^verbatim>\<open>np.diff\<close>: the successive differences, none for fewer than two entries.\<close>

fun np_diff :: "real list \<Rightarrow> real list" where
  "np_diff (x # y # xs) = (y - x) # np_diff (y # xs)"
| "np_diff _ = []"

text \<open>
  \<^verbatim>\<open>
  def calculate_rsi(prices, period=14):
      if len(prices) < period + 1:
          return 50.0
      deltas = np.diff(prices)
      gains = np.where(deltas > 0, deltas, 0)
      losses = np.where(deltas < 0, -deltas, 0)
      avg_gain = np.mean(gains[-period:])
      avg_loss = np.mean(losses[-period:])
      if avg_loss == 0:
          return 100.0
      rs = avg_gain / avg_loss
      rsi = 100 - (100 / (1 + rs))
      return rsi
  \<close>
  The period is a Python integer. A NaN average loss is not equal to 0 and makes the
  result NaN. Where the quotients are formed the average loss is a non-zero number and
  \<open>1 + rs\<close> is at least 1, the gains being non-negative.
\<close>

definition calculate_rsi :: "real list \<Rightarrow> int \<Rightarrow> pyfloat" where
  "calculate_rsi prices period =
     (if int (length prices) < period + 1 then Flt 50
      else
        let deltas = np_diff prices;
            gains = map (\<lambda>d. if d > 0 then d else 0) deltas;
            losses = map (\<lambda>d. if d < 0 then - d else 0) deltas;
            avg_gain = np_mean (slice_from gains (- period));
            avg_loss = np_mean (slice_from losses (- period))
        in case avg_loss of
             NaN \<Rightarrow> NaN
           | Flt l \<Rightarrow>
               if l = 0 then Flt 100
               else (case avg_gain of
                       NaN \<Rightarrow> NaN
                     | Flt g \<Rightarrow> (let rs = g / l in Flt (100 - (100 / (1 + rs))))))"

text \<open>
  \<^verbatim>\<open>
  def calculate_sma(prices, period=20):
      if len(prices) < period:
          return prices[-1] if prices else 0
      return np.mean(prices[-period:])
  \<close>
\<close>

definition calculate_sma :: "real list \<Rightarrow> int \<Rightarrow> pyfloat" where
  "calculate_sma prices period =
     (if int (length prices) < period
      then (if prices \<noteq> [] then Flt (last prices) else Flt 0)
      else np_mean (slice_from prices (- period)))"

section \<open>The collaborator, and the events of a run\<close>

text \<open>
  The broker and market-data client is external. A call either raises (\<open>Inl\<close>, any
  subclass of \<^verbatim>\<open>Exception\<close>, kept as its message) or returns. What it answers may
  depend on everything the run did before, so each method takes the history: the list of
  the calls made and the lines printed so far. The dates \<^verbatim>\<open>get_bars\<close> is called with
  come from the clock and are part of what the client answers for.
\<close>

type_synonym exn = string

record bar =
  close :: real

record quote =
  last_price :: "real option"
  ask_price :: "real option"
  bid_price :: "real option"

text \<open>An order handle, with its \<^verbatim>\<open>id\<close> attribute when it has one.\<close>

datatype order_handle = OrderHandle "string option"

text \<open>One constructor for each \<^verbatim>\<open>print\<close> statement, with the values it formats.\<close>

datatype message =
    BarsError string exn
  | RsiRisky pyfloat
  | VixRisky real
  | RiskError exn
  | NotEnoughData string
  | Trend string real pyfloat bool
  | UptrendError string exn
  | Rule60
  | Title
  | StrategyId string
  | Universe "string list"
  | DcaAmount real
  | Blank
  | Checking
  | SkipAll
  | MarketOk
  | Rule40
  | Analyzing string
  | SkipTrend string
  | NoQuote string
  | InvalidPrice string
  | SkipShares string real
  | Buy string int real
  | OrderPlaced string string
  | OrderFailed string
  | ProcessError string exn
  | EndRule60
  | Summary nat nat

datatype event =
    GetBars string
  | GetLatestQuote string
  | SubmitOrder string int string string
  | Print message

record client =
  get_bars :: "event list \<Rightarrow> string \<Rightarrow> exn + bar list option"
  get_latest_quote :: "event list \<Rightarrow> string \<Rightarrow> exn + quote option"
  execution_order :: "event list \<Rightarrow> string \<Rightarrow> int \<Rightarrow> exn + order_handle option"

text \<open>
  What \<^verbatim>\<open>initialize_client\<close> reads: the environment variable of the strategy id, and
  the outcome of constructing the client and selecting the broker.
\<close>

record world =
  environ_strategy_id :: "string option"
  connect :: "exn + client"

definition initialize_client :: "world \<Rightarrow> exn + client \<times> string" where
  "initialize_client w =
     (let strategy_id = (case environ_strategy_id w of None \<Rightarrow> ''demo'' | Some v \<Rightarrow> v)
      in case connect w of
           Inl e \<Rightarrow> Inl e
         | Inr c \<Rightarrow> Inr (c, strategy_id))"

text \<open>
  \<^verbatim>\<open>get_historical_closes\<close>: the closes of the bars the client returns, and the empty
  list when it returns nothing or raises (the error is printed). It never raises.
\<close>

definition get_historical_closes :: "client \<Rightarrow> event list \<Rightarrow> string \<Rightarrow> real list \<times> event list" where
  "get_historical_closes c h symbol =
     (case get_bars c h symbol of
        Inl e \<Rightarrow> ([], h @ [GetBars symbol, Print (BarsError symbol e)])
      | Inr bars \<Rightarrow>
          (case bars of
             None \<Rightarrow> ([], h @ [GetBars symbol])
           | Some bs \<Rightarrow>
               if length bs > 0 then (map close bs, h @ [GetBars symbol])
               else ([], h @ [GetBars symbol])))"

section \<open>The market risk gate\<close>

text \<open>
  The inner \<^verbatim>\<open>try\<close> block of \<^verbatim>\<open>is_market_risky\<close>. It raises when the fetch raises, and
  when the quote has no last price (\<^verbatim>\<open>None > 25\<close> is a TypeError); \<open>Inr True\<close> is its
  \<^verbatim>\<open>return True\<close>, \<open>Inr False\<close> is falling through.
\<close>

definition vix_check :: "client \<Rightarrow> event list \<Rightarrow> (exn + bool) \<times> event list" where
  "vix_check c h =
     (let h1 = h @ [GetLatestQuote ''VIX''] in
      case get_latest_quote c h ''VIX'' of
        Inl e \<Rightarrow> (Inl e, h1)
      | Inr vix_quote \<Rightarrow>
          (let vix_level = (case vix_quote of Some q \<Rightarrow> last_price q | None \<Rightarrow> Some 0) in
           case vix_level of
             None \<Rightarrow> (Inl ''TypeError'', h1)
           | Some v \<Rightarrow>
               if v > VIX_THRESHOLD then (Inr True, h1 @ [Print (VixRisky v)])
               else (Inr False, h1)))"

text \<open>The outer \<^verbatim>\<open>try\<close> block; the bare \<^verbatim>\<open>except: pass\<close> swallows what the inner one raises.\<close>

definition is_market_risky_body :: "client \<Rightarrow> event list \<Rightarrow> (exn + bool) \<times> event list" where
  "is_market_risky_body c h =
     (let (spy_closes, h1) = get_historical_closes c h ''SPY'';
          spy_rsi = calculate_rsi spy_closes RSI_PERIOD
      in if spy_closes \<noteq> [] \<and> gt spy_rsi (Flt RSI_THRESHOLD)
         then (Inr True, h1 @ [Print (RsiRisky spy_rsi)])
         else (case vix_check c h1 of
                 (Inr True, h2) \<Rightarrow> (Inr True, h2)
               | (Inr False, h2) \<Rightarrow> (Inr False, h2)
               | (Inl e, h2) \<Rightarrow> (Inr False, h2)))"

text \<open>The outer handler: \<^verbatim>\<open>except Exception as e: print(...); return False\<close>.\<close>

fun fail_open :: "(exn + bool) \<times> event list \<Rightarrow> bool \<times> event list" where
  "fail_open (Inr b, h) = (b, h)"
| "fail_open (Inl e, h) = (False, h @ [Print (RiskError e)])"

definition is_market_risky :: "client \<Rightarrow> event list \<Rightarrow> bool \<times> event list" where
  "is_market_risky c h = fail_open (is_market_risky_body c h)"

section \<open>The trend gate\<close>

text \<open>
  The \<^verbatim>\<open>try\<close> block of \<^verbatim>\<open>is_in_uptrend\<close>, then the function with its handler, which
  answers false. Nothing in the block raises: the closes are numbers, and the last close
  is read only from a series of at least 20.
\<close>

definition is_in_uptrend_body :: "client \<Rightarrow> event list \<Rightarrow> string \<Rightarrow> (exn + bool) \<times> event list" where
  "is_in_uptrend_body c h symbol =
     (let (closes, h1) = get_historical_closes c h symbol
      in if closes = [] \<or> int (length closes) < SMA_PERIOD
         then (Inr False, h1 @ [Print (NotEnoughData symbol)])
         else
           let current_price = last closes;
               sma = calculate_sma closes SMA_PERIOD;
               in_uptrend = gt (Flt current_price) sma
           in (Inr in_uptrend, h1 @ [Print (Trend symbol current_price sma in_uptrend)]))"

definition is_in_uptrend :: "client \<Rightarrow> event list \<Rightarrow> string \<Rightarrow> bool \<times> event list" where
  "is_in_uptrend c h symbol =
     (case is_in_uptrend_body c h symbol of
        (Inr b, h1) \<Rightarrow> (b, h1)
      | (Inl e, h1) \<Rightarrow> (False, h1 @ [Print (UptrendError symbol e)]))"

section \<open>The execution orchestrator\<close>

text \<open>
  Python's truth value of an optional number (\<^verbatim>\<open>None\<close> and zero are false), its
  \<^verbatim>\<open>or\<close>, which yields the first operand when that is true and the second otherwise,
  and \<^verbatim>\<open>int\<close> of a float, which truncates towards zero.
\<close>

definition truthy :: "real option \<Rightarrow> bool" where
  "truthy x = (case x of None \<Rightarrow> False | Some v \<Rightarrow> v \<noteq> 0)"

definition py_or :: "real option \<Rightarrow> real option \<Rightarrow> real option" where
  "py_or a b = (if truthy a then a else b)"

definition py_int :: "real \<Rightarrow> int" where
  "py_int x = (if 0 \<le> x then \<lfloor>x\<rfloor> else \<lceil>x\<rceil>)"

text \<open>\<^verbatim>\<open>quote.last_price or quote.ask_price or quote.bid_price\<close>\<close>

definition effective_price :: "quote \<Rightarrow> real option" where
  "effective_price q = py_or (py_or (last_price q) (ask_price q)) (bid_price q)"

text \<open>
  The \<^verbatim>\<open>try\<close> block of the loop body: the quote, the price, the share quantity and
  the order. The first component is the exception it raises, if any.
\<close>

definition run_order_step :: "client \<Rightarrow> event list \<Rightarrow> nat \<Rightarrow> string \<Rightarrow> exn option \<times> event list \<times> nat" where
  "run_order_step c h orders_placed symbol =
     (let h1 = h @ [GetLatestQuote symbol] in
      case get_latest_quote c h symbol of
        Inl e \<Rightarrow> (Some e, h1, orders_placed)
      | Inr None \<Rightarrow> (None, h1 @ [Print (NoQuote symbol)], orders_placed)
      | Inr (Some q) \<Rightarrow>
          (case effective_price q of
             None \<Rightarrow> (None, h1 @ [Print (InvalidPrice symbol)], orders_placed)
           | Some current_price \<Rightarrow>
               if \<not> truthy (Some current_price) \<or> current_price \<le> 0
               then (None, h1 @ [Print (InvalidPrice symbol)], orders_placed)
               else
                 let shares = py_int (DCA_AMOUNT / current_price)
                 in if shares \<le> 0
                    then (None, h1 @ [Print (SkipShares symbol current_price)], orders_placed)
                    else
                      let h2 = h1 @ [Print (Buy symbol shares current_price)];
                          h3 = h2 @ [SubmitOrder symbol shares ''buy'' ''market'']
                      in case execution_order c h2 symbol shares of
                           Inl e \<Rightarrow> (Some e, h3, orders_placed)
                         | Inr None \<Rightarrow> (None, h3 @ [Print (OrderFailed symbol)], orders_placed)
                         | Inr (Some (OrderHandle oid)) \<Rightarrow>
                             (None,
                              h3 @ [Print (OrderPlaced symbol
                                             (case oid of Some i \<Rightarrow> i | None \<Rightarrow> ''submitted''))],
                              orders_placed + 1)))"

text \<open>The loop body for one symbol, with the handler of its \<^verbatim>\<open>try\<close> block.\<close>

definition run_symbol :: "client \<Rightarrow> event list \<Rightarrow> nat \<Rightarrow> string \<Rightarrow> event list \<times> nat" where
  "run_symbol c h orders_placed symbol =
     (let (uptrend, h1) = is_in_uptrend c (h @ [Print (Analyzing symbol)]) symbol
      in if \<not> uptrend then (h1 @ [Print (SkipTrend symbol)], orders_placed)
         else (case run_order_step c h1 orders_placed symbol of
                 (None, h2, n) \<Rightarrow> (h2, n)
               | (Some e, h2, n) \<Rightarrow> (h2 @ [Print (ProcessError symbol e)], n)))"

fun run_loop :: "client \<Rightarrow> string list \<Rightarrow> event list \<Rightarrow> nat \<Rightarrow> event list \<times> nat" where
  "run_loop c [] h orders_placed = (h, orders_placed)"
| "run_loop c (symbol # symbols) h orders_placed =
     (let (h1, n) = run_symbol c h orders_placed symbol
      in run_loop c symbols h1 n)"

text \<open>What \<^verbatim>\<open>run\<close> prints before it calls the risk gate.\<close>

definition run_preamble :: "string \<Rightarrow> event list" where
  "run_preamble strategy_id =
     [Print Rule60, Print Title, Print Rule60,
      Print (StrategyId strategy_id), Print (Universe SYMBOLS), Print (DcaAmount DCA_AMOUNT),
      Print Blank, Print Checking]"

text \<open>
  \<^verbatim>\<open>run\<close>: the exception it propagates, if any (only a failure of
  \<^verbatim>\<open>initialize_client\<close>, which is outside every \<^verbatim>\<open>try\<close>), and the events of the run.
\<close>

definition run :: "world \<Rightarrow> exn option \<times> event list" where
  "run w =
     (case initialize_client w of
        Inl e \<Rightarrow> (Some e, [Print Rule60, Print Title, Print Rule60])
      | Inr (c, strategy_id) \<Rightarrow>
          (let (risky, h2) = is_market_risky c (run_preamble strategy_id)
           in if risky then (None, h2 @ [Print SkipAll])
              else
                let h3 = h2 @ [Print MarketOk, Print Rule40];
                    (h4, orders_placed) = run_loop c SYMBOLS h3 0
                in (None, h4 @ [Print EndRule60, Print (Summary orders_placed (length SYMBOLS)), Print Rule60])))"

section \<open>Observations on the events of a run\<close>

fun is_order :: "event \<Rightarrow> bool" where
  "is_order (SubmitOrder symbol qty side order_type) = True"
| "is_order _ = False"

fun is_get_bars :: "event \<Rightarrow> bool" where
  "is_get_bars (GetBars symbol) = True"
| "is_get_bars _ = False"

fun is_analyzing :: "event \<Rightarrow> bool" where
  "is_analyzing (Print (Analyzing symbol)) = True"
| "is_analyzing _ = False"


section \<open>Example collaborators\<close>

text \<open>
  Twenty daily bars that rise throughout (RSI 100, last close above the mean) and twenty
  that fall throughout (RSI 0).
\<close>

definition rising_bars :: "bar list" where
  "rising_bars = map (\<lambda>x. \<lparr>close = x\<rparr>)
     [1, 2, 3, 4, 5, 6, 7, 8, 9, 10, 11, 12, 13, 14, 15, 16, 17, 18, 19, 21]"

definition falling_bars :: "bar list" where
  "falling_bars = map (\<lambda>x. \<lparr>close = x\<rparr>)
     [21, 19, 18, 17, 16, 15, 14, 13, 12, 11, 10, 9, 8, 7, 6, 5, 4, 3, 2, 1]"

definition quote_at :: "real \<Rightarrow> quote" where
  "quote_at p = \<lparr>last_price = Some p, ask_price = None, bid_price = None\<rparr>"

text \<open>
  A client with the given benchmark bars and the given answer to the volatility quote.
  Every symbol of the universe has rising bars, except AMD, which has none. The quote of
  NVDA raises, AMD has no last price and asks 30, RKLB trades at 150 and the others at
  45; the order for QBTS raises.
\<close>

definition example_client :: "bar list \<Rightarrow> exn + quote option \<Rightarrow> client" where
  "example_client spy_bars vix_answer =
     \<lparr>get_bars = (\<lambda>h symbol.
         if symbol = ''SPY'' then Inr (Some spy_bars)
         else if symbol = ''AMD'' then Inr (Some [])
         else Inr (Some rising_bars)),
      get_latest_quote = (\<lambda>h symbol.
         if symbol = ''VIX'' then vix_answer
         else if symbol = ''NVDA'' then Inl ''timeout''
         else if symbol = ''AMD'' then Inr (Some \<lparr>last_price = None, ask_price = Some 30, bid_price = Some 29\<rparr>)
         else if symbol = ''RKLB'' then Inr (Some (quote_at 150))
         else Inr (Some (quote_at 45))),
      execution_order = (\<lambda>h symbol qty.
         if symbol = ''QBTS'' then Inl ''rejected''
         else Inr (Some (OrderHandle (Some ''order-1''))))\<rparr>"

definition example_world :: "bar list \<Rightarrow> exn + quote option \<Rightarrow> world" where
  "example_world spy_bars vix_answer =
     \<lparr>environ_strategy_id = None, connect = Inr (example_client spy_bars vix_answer)\<rparr>"

section \<open>Facts about the indicator library\<close>

lemma slice_from_neg: "1 \<le> p \<Longrightarrow> slice_from xs (- p) = drop (length xs - nat p) xs"
  unfolding slice_from_def Let_def
  by (rule arg_cong[where f="\<lambda>k. drop k xs"]) auto

lemma length_np_diff: "length (np_diff xs) = length xs - 1"
  by (induction xs rule: np_diff.induct) auto

lemma np_diff_drop: "np_diff (drop k xs) = drop k (np_diff xs)"
proof (induction k arbitrary: xs)
  case 0 show ?case by simp
next
  case (Suc k)
  show ?case
  proof (cases xs rule: np_diff.cases)
    case (1 x y ys)
    then show ?thesis using Suc[of "y # ys"] by simp
  qed (simp_all)
qed


lemma np_diff_pos: "sorted_wrt (<) xs \<Longrightarrow> \<forall>d \<in> set (np_diff xs). 0 < d"
  by (induction xs rule: np_diff.induct) auto

lemma rsi_window:
  assumes "1 \<le> period" "period + 1 \<le> int (length prices)"
  shows "calculate_rsi prices period =
     (let w = np_diff (drop (length prices - (nat period + 1)) prices);
          g = sum_list (map (\<lambda>d. if d > 0 then d else 0) w) / real_of_int period;
          l = sum_list (map (\<lambda>d. if d < 0 then - d else 0) w) / real_of_int period
      in if l = 0 then Flt 100 else Flt (100 - 100 / (1 + g / l)))"
    and "length (np_diff (drop (length prices - (nat period + 1)) prices)) = nat period"
proof -
  let ?k = "length prices - (nat period + 1)"
  let ?w = "np_diff (drop ?k prices)"
  have k: "length (np_diff prices) - nat period = ?k"
    by (simp add: length_np_diff)
  show len: "length ?w = nat period"
    using assms by (simp add: length_np_diff)
  then have ne: "?w \<noteq> []" using assms by auto
  have sl: "slice_from (map f (np_diff prices)) (- period) = map f ?w" for f :: "real \<Rightarrow> real"
    using assms by (simp add: slice_from_neg k np_diff_drop drop_map)
  have mean: "np_mean (map f ?w) = Flt (sum_list (map f ?w) / real_of_int period)" for f :: "real \<Rightarrow> real"
    using ne len assms by (simp add: np_mean_def)
  show "calculate_rsi prices period =
     (let w = ?w;
          g = sum_list (map (\<lambda>d. if d > 0 then d else 0) w) / real_of_int period;
          l = sum_list (map (\<lambda>d. if d < 0 then - d else 0) w) / real_of_int period
      in if l = 0 then Flt 100 else Flt (100 - 100 / (1 + g / l)))"
    using assms unfolding calculate_rsi_def Let_def sl mean by simp
qed



lemma sum_list_losses_zero:
  "\<forall>d \<in> set w. 0 < d \<Longrightarrow> sum_list (map (\<lambda>d. if d < 0 then - d else 0) w) = (0::real)"
  by (induction w) auto




text \<open>
  Claim C8. \<open>calculate_rsi\<close> is exactly 50 whenever fewer than \<open>period + 1\<close> prices are
  given (for every integer period), and exactly 100 for every strictly increasing
  sequence of at least \<open>period + 1\<close> prices, for a period of at least 1 (the input
  domain the specification declares): all losses are zero, and the division by the
  average loss is never reached.
\<close>

theorem calculate_rsi_edge_cases:
  "(int (length prices) < period + 1 \<longrightarrow> calculate_rsi prices period = Flt 50)
   \<and> (1 \<le> period \<and> period + 1 \<le> int (length prices) \<and> sorted_wrt (<) prices \<longrightarrow>
        calculate_rsi prices period = Flt 100)"
proof (intro conjI impI)
  assume "int (length prices) < period + 1"
  then show "calculate_rsi prices period = Flt 50" by (simp add: calculate_rsi_def)
next
  assume a: "1 \<le> period \<and> period + 1 \<le> int (length prices) \<and> sorted_wrt (<) prices"
  let ?w = "np_diff (drop (length prices - (nat period + 1)) prices)"
  have "sorted_wrt (<) (drop (length prices - (nat period + 1)) prices)"
    using a by (simp add: sorted_wrt_drop)
  then have "\<forall>d \<in> set ?w. 0 < d" by (rule np_diff_pos)
  then have "sum_list (map (\<lambda>d. if d < 0 then - d else 0) ?w) = 0"
    by (rule sum_list_losses_zero)
  then show "calculate_rsi prices period = Flt 100"
    using rsi_window(1)[of period prices] a by (simp add: Let_def)
qed

theorem calculate_rsi_edge_cases_witness:
  "int (length [3, 1::real]) < 2 + 1 \<and> calculate_rsi [3, 1] 2 = Flt 50
   \<and> (1::int) \<le> 2 \<and> 2 + 1 \<le> int (length [1, 2, 4, 7::real]) \<and> sorted_wrt (<) [1, 2, 4, 7::real]
   \<and> calculate_rsi [1, 2, 4, 7] 2 = Flt 100"
  using calculate_rsi_edge_cases [where period = 2 and prices = "[3, 1]"]
        calculate_rsi_edge_cases [where period = 2 and prices = "[1, 2, 4, 7]"]
  by simp



text \<open>
  Claim C10. Both indicators depend only on their trailing window (for a period of at
  least 1, the declared input domain): with at least \<open>period\<close> prices, prepending any
  older prices leaves \<open>calculate_sma\<close> unchanged, and its value is that of the last
  \<open>period\<close> prices alone; with at least \<open>period + 1\<close> prices the same holds of
  \<open>calculate_rsi\<close> and the last \<open>period + 1\<close> prices.
\<close>

theorem trailing_window:
  assumes "1 \<le> period"
  shows "(period \<le> int (length prices) \<longrightarrow>
            calculate_sma (older @ prices) period = calculate_sma prices period
          \<and> calculate_sma prices period = calculate_sma (drop (length prices - nat period) prices) period)
       \<and> (period + 1 \<le> int (length prices) \<longrightarrow>
            calculate_rsi (older @ prices) period = calculate_rsi prices period
          \<and> calculate_rsi prices period = calculate_rsi (drop (length prices - nat (period + 1)) prices) period)"
proof -
  have sma: "calculate_sma (pre @ xs) period = calculate_sma xs period"
    if "period \<le> int (length xs)" for pre xs
  proof -
    have "length pre + length xs - nat period = length pre + (length xs - nat period)"
      using that by linarith
    then show ?thesis
      using assms that by (simp add: calculate_sma_def slice_from_neg)
  qed
  have rsi: "calculate_rsi (pre @ xs) period = calculate_rsi xs period"
    if "period + 1 \<le> int (length xs)" for pre xs
  proof -
    have "length pre + length xs - (nat period + 1) = length pre + (length xs - (nat period + 1))"
      using that assms by linarith
    then have "drop (length (pre @ xs) - (nat period + 1)) (pre @ xs) = drop (length xs - (nat period + 1)) xs"
      by simp
    moreover have "period + 1 \<le> int (length (pre @ xs))" using that by simp
    ultimately show ?thesis
      using rsi_window(1)[OF assms, of "pre @ xs"] rsi_window(1)[OF assms that] by simp
  qed
  have split: "take k xs @ drop k xs = xs" for k and xs :: "real list" by simp
  have sma': "calculate_sma prices period = calculate_sma (drop (length prices - nat period) prices) period"
    if "period \<le> int (length prices)"
  proof -
    have "period \<le> int (length (drop (length prices - nat period) prices))"
      using that assms by simp
    from sma[OF this, of "take (length prices - nat period) prices"] show ?thesis by simp
  qed
  have rsi': "calculate_rsi prices period = calculate_rsi (drop (length prices - nat (period + 1)) prices) period"
    if "period + 1 \<le> int (length prices)"
  proof -
    have "period + 1 \<le> int (length (drop (length prices - nat (period + 1)) prices))"
      using that assms by simp
    from rsi[OF this, of "take (length prices - nat (period + 1)) prices"] show ?thesis by simp
  qed
  show ?thesis using sma sma' rsi rsi' by blast
qed

theorem trailing_window_witness:
  "(1::int) \<le> 2 \<and> 2 + 1 \<le> int (length [4, 5, 3, 6::real])
   \<and> calculate_sma ([9, 8] @ [4, 5, 3, 6]) 2 = calculate_sma [4, 5, 3, 6] 2
   \<and> calculate_sma [4, 5, 3, 6] 2 = calculate_sma [3, 6] 2
   \<and> calculate_rsi ([9, 8] @ [4, 5, 3, 6]) 2 = calculate_rsi [4, 5, 3, 6] 2
   \<and> calculate_rsi [4, 5, 3, 6] 2 = calculate_rsi [5, 3, 6] 2"
  using trailing_window [where period = 2 and prices = "[4, 5, 3, 6]" and older = "[9, 8]"]
  by simp

section \<open>Facts about the example collaborators\<close>

lemma example_spy_closes:
  "get_historical_closes (example_client spy_bars vix_answer) h ''SPY'' =
     (map close spy_bars, h @ [GetBars ''SPY''])"
  by (cases spy_bars) (simp_all add: get_historical_closes_def example_client_def)

lemma rsi_rising_bars: "calculate_rsi (map close rising_bars) 14 = Flt 100"
  by (simp add: calculate_rsi_def rising_bars_def slice_from_def np_mean_def)

lemma rsi_falling_bars: "calculate_rsi (map close falling_bars) 14 = Flt 0"
  by (simp add: calculate_rsi_def falling_bars_def slice_from_def np_mean_def)

lemma example_vix_quote:
  "get_latest_quote (example_client spy_bars vix_answer) h ''VIX'' = vix_answer"
  by (simp add: example_client_def)


lemma example_initialize:
  "initialize_client (example_world spy_bars vix_answer) =
     Inr (example_client spy_bars vix_answer, ''demo'')"
  by (simp add: initialize_client_def example_world_def)

section \<open>Facts about the gates\<close>

lemma calculate_rsi_nil: "calculate_rsi [] RSI_PERIOD = Flt 50"
  by (simp add: calculate_rsi_def RSI_PERIOD_def)

lemma vix_check_cases:
  "(\<exists>h2. vix_check c h1 = (Inr True, h2)) \<or> (\<exists>h2. vix_check c h1 = (Inr False, h2))
   \<or> (\<exists>e h2. vix_check c h1 = (Inl e, h2))"
  by (cases "vix_check c h1"; cases "fst (vix_check c h1)") auto

text \<open>
  Claim C1. Let the benchmark series be the closes fetched for SPY and \<open>r\<close> its
  RSI(14). The risk gate answers risky when \<open>r\<close> exceeds 75, whatever the volatility
  quote is (it is not even fetched); it answers risky when the volatility quote has a
  last price above 25, whatever \<open>r\<close> is; and it answers not risky when \<open>r\<close> is at
  most 75 and the quote's last price is at most 25. Either check alone suffices.
\<close>

theorem is_market_risky_or:
  assumes closes: "get_historical_closes c h ''SPY'' = (spy_closes, h1)"
    and rsi: "calculate_rsi spy_closes 14 = Flt r"
  shows "(r > 75 \<longrightarrow> fst (is_market_risky c h))
       \<and> (get_latest_quote c h1 ''VIX'' = Inr (Some q) \<and> last_price q = Some v \<and> v > 25
            \<longrightarrow> fst (is_market_risky c h))
       \<and> (r \<le> 75 \<and> get_latest_quote c h1 ''VIX'' = Inr (Some q) \<and> last_price q = Some v \<and> v \<le> 25
            \<longrightarrow> \<not> fst (is_market_risky c h))"
proof -
  have ne: "spy_closes \<noteq> []" if "r > 75"
    using that rsi calculate_rsi_nil by (auto simp: RSI_PERIOD_def)
  have a: "fst (is_market_risky c h)" if "r > 75"
    using that ne closes rsi
    by (simp add: is_market_risky_def is_market_risky_body_def Let_def RSI_PERIOD_def RSI_THRESHOLD_def)
  have vix: "vix_check c h1 = (if v > 25 then (Inr True, h1 @ [GetLatestQuote ''VIX'', Print (VixRisky v)])
                               else (Inr False, h1 @ [GetLatestQuote ''VIX'']))"
    if "get_latest_quote c h1 ''VIX'' = Inr (Some q)" "last_price q = Some v"
    using that by (simp add: vix_check_def VIX_THRESHOLD_def)
  have b: "fst (is_market_risky c h)"
    if "get_latest_quote c h1 ''VIX'' = Inr (Some q)" "last_price q = Some v" "v > 25"
    using vix[OF that(1,2)] that(3) closes
    by (simp add: is_market_risky_def is_market_risky_body_def Let_def)
  have c: "\<not> fst (is_market_risky c h)"
    if "r \<le> 75" "get_latest_quote c h1 ''VIX'' = Inr (Some q)" "last_price q = Some v" "v \<le> 25"
    using vix[OF that(2,3)] that(1,4) closes rsi
    by (simp add: is_market_risky_def is_market_risky_body_def Let_def RSI_PERIOD_def RSI_THRESHOLD_def)
  from a b c show ?thesis by blast
qed

theorem is_market_risky_or_witness:
  "fst (is_market_risky (example_client rising_bars (Inr (Some (quote_at 10)))) [])
   \<and> fst (is_market_risky (example_client falling_bars (Inr (Some (quote_at 30)))) [])
   \<and> \<not> fst (is_market_risky (example_client falling_bars (Inr (Some (quote_at 20)))) [])"
proof -
  let ?c = "\<lambda>bars p. example_client bars (Inr (Some (quote_at p)))"
  have closes: "get_historical_closes (?c bars p) [] ''SPY'' = (map close bars, [] @ [GetBars ''SPY''])"
    for bars p by (rule example_spy_closes)
  have vix: "get_latest_quote (?c bars p) ([] @ [GetBars ''SPY'']) ''VIX'' = Inr (Some (quote_at p))
             \<and> last_price (quote_at p) = Some p" for bars p
    by (simp add: example_vix_quote quote_at_def)
  from is_market_risky_or [OF closes rsi_rising_bars, of 10]
  have a: "fst (is_market_risky (?c rising_bars 10) [])" by simp
  from is_market_risky_or [OF closes rsi_falling_bars, of 30 "quote_at 30" 30] vix [of falling_bars 30]
  have b: "fst (is_market_risky (?c falling_bars 30) [])" by simp
  from is_market_risky_or [OF closes rsi_falling_bars, of 20 "quote_at 20" 20] vix [of falling_bars 20]
  have c: "\<not> fst (is_market_risky (?c falling_bars 20) [])" by simp
  from a b c show ?thesis by simp
qed

text \<open>
  Claim C5. The risk gate never propagates an exception: its outer \<^verbatim>\<open>try\<close> block
  always completes with a boolean, for every client (whatever raises inside is handled
  inside). When the fetch of the volatility quote raises, the answer is that of the RSI
  check alone. The gate is the outer handler applied to the block, and that handler turns
  any exception that would reach it into the answer not risky.
\<close>

theorem is_market_risky_fail_open:
  assumes closes: "get_historical_closes c h ''SPY'' = (spy_closes, h1)"
  shows "(\<exists>b h2. is_market_risky_body c h = (Inr b, h2))
       \<and> (get_latest_quote c h1 ''VIX'' = Inl e \<longrightarrow>
            fst (is_market_risky c h) = gt (calculate_rsi spy_closes 14) (Flt 75))
       \<and> is_market_risky c h = fail_open (is_market_risky_body c h)
       \<and> fst (fail_open (Inl e', h')) = False"
proof -
  have body: "\<exists>b h2. is_market_risky_body c h = (Inr b, h2)"
    using vix_check_cases[of c h1] closes
    by (auto simp: is_market_risky_body_def Let_def)
  have ne: "spy_closes \<noteq> []" if "gt (calculate_rsi spy_closes 14) (Flt 75)"
    using that calculate_rsi_nil by (auto simp: RSI_PERIOD_def)
  have vix: "fst (is_market_risky c h) = gt (calculate_rsi spy_closes 14) (Flt 75)"
    if "get_latest_quote c h1 ''VIX'' = Inl e"
  proof -
    have "vix_check c h1 = (Inl e, h1 @ [GetLatestQuote ''VIX''])"
      using that by (simp add: vix_check_def)
    then show ?thesis using closes ne
      by (auto simp: is_market_risky_def is_market_risky_body_def Let_def RSI_PERIOD_def RSI_THRESHOLD_def)
  qed
  show ?thesis using body vix by (simp add: is_market_risky_def)
qed

theorem is_market_risky_fail_open_witness:
  "fst (is_market_risky (example_client rising_bars (Inl ''unreachable'')) [])
   \<and> \<not> fst (is_market_risky (example_client falling_bars (Inl ''unreachable'')) [])"
proof -
  let ?c = "\<lambda>bars. example_client bars (Inl ''unreachable'')"
  have closes: "get_historical_closes (?c bars) [] ''SPY'' = (map close bars, [] @ [GetBars ''SPY''])"
    for bars by (rule example_spy_closes)
  have vix: "get_latest_quote (?c bars) ([] @ [GetBars ''SPY'']) ''VIX'' = Inl ''unreachable''" for bars
    by (simp add: example_vix_quote)
  from is_market_risky_fail_open [OF closes, of rising_bars "''unreachable''"] vix [of rising_bars]
  have "fst (is_market_risky (?c rising_bars) []) = gt (calculate_rsi (map close rising_bars) 14) (Flt 75)"
    by blast
  then have a: "fst (is_market_risky (?c rising_bars) [])" by (simp add: rsi_rising_bars)
  from is_market_risky_fail_open [OF closes, of falling_bars "''unreachable''"] vix [of falling_bars]
  have "fst (is_market_risky (?c falling_bars) []) = gt (calculate_rsi (map close falling_bars) 14) (Flt 75)"
    by blast
  then have b: "\<not> fst (is_market_risky (?c falling_bars) [])" by (simp add: rsi_falling_bars)
  from a b show ?thesis by simp
qed



section \<open>Facts about the orchestrator\<close>








lemma get_historical_closes_events:
  "\<exists>ev. snd (get_historical_closes c h symbol) = h @ ev
        \<and> filter is_order ev = [] \<and> filter is_analyzing ev = []
        \<and> filter is_get_bars ev = [GetBars symbol]"
  by (auto simp: get_historical_closes_def split: sum.splits option.splits)

lemma vix_check_events:
  "\<exists>ev. snd (vix_check c h) = h @ ev
        \<and> filter is_order ev = [] \<and> filter is_analyzing ev = [] \<and> filter is_get_bars ev = []"
  by (auto simp: vix_check_def Let_def split: sum.splits option.splits)

lemma is_market_risky_events:
  "\<exists>ev. snd (is_market_risky c h) = h @ ev
        \<and> filter is_order ev = [] \<and> filter is_analyzing ev = []
        \<and> filter is_get_bars ev = [GetBars ''SPY'']"
proof -
  obtain closes h1 where g: "get_historical_closes c h ''SPY'' = (closes, h1)"
    by (cases "get_historical_closes c h ''SPY''")
  obtain ev1 where ev1: "h1 = h @ ev1" "filter is_order ev1 = []" "filter is_analyzing ev1 = []"
      "filter is_get_bars ev1 = [GetBars ''SPY'']"
    using get_historical_closes_events[of c h "''SPY''"] g by auto
  obtain r h2 where v: "vix_check c h1 = (r, h2)"
    by (cases "vix_check c h1")
  obtain ev2 where ev2: "h2 = h1 @ ev2" "filter is_order ev2 = []" "filter is_analyzing ev2 = []"
      "filter is_get_bars ev2 = []"
    using vix_check_events[of c h1] v by auto
  show ?thesis
  proof (cases "closes \<noteq> [] \<and> gt (calculate_rsi closes RSI_PERIOD) (Flt RSI_THRESHOLD)")
    case True
    then have "snd (is_market_risky c h) = h @ (ev1 @ [Print (RsiRisky (calculate_rsi closes RSI_PERIOD))])"
      using g ev1(1) by (simp add: is_market_risky_def is_market_risky_body_def Let_def)
    then show ?thesis using ev1 by (intro exI[of _ "ev1 @ [Print (RsiRisky (calculate_rsi closes RSI_PERIOD))]"]) simp
  next
    case False
    then have "snd (is_market_risky c h) = h @ (ev1 @ ev2)"
      using g v ev1(1) ev2(1)
      by (cases r) (auto simp: is_market_risky_def is_market_risky_body_def Let_def split: bool.splits)
    then show ?thesis using ev1 ev2 by (intro exI[of _ "ev1 @ ev2"]) simp
  qed
qed

lemma is_in_uptrend_events:
  "\<exists>ev. snd (is_in_uptrend c h symbol) = h @ ev
        \<and> filter is_order ev = [] \<and> filter is_analyzing ev = []
        \<and> filter is_get_bars ev = [GetBars symbol]"
proof -
  obtain closes h1 where g: "get_historical_closes c h symbol = (closes, h1)"
    by (cases "get_historical_closes c h symbol")
  obtain ev1 where ev1: "h1 = h @ ev1" "filter is_order ev1 = []" "filter is_analyzing ev1 = []"
      "filter is_get_bars ev1 = [GetBars symbol]"
    using get_historical_closes_events[of c h symbol] g by auto
  have "\<exists>m. snd (is_in_uptrend c h symbol) = h @ (ev1 @ [Print m]) \<and> \<not> is_analyzing (Print m)"
    using g ev1(1) by (auto simp: is_in_uptrend_def is_in_uptrend_body_def Let_def)
  then obtain m where "snd (is_in_uptrend c h symbol) = h @ (ev1 @ [Print m])" "\<not> is_analyzing (Print m)"
    by blast
  then show ?thesis using ev1 by (intro exI[of _ "ev1 @ [Print m]"]) simp
qed

lemma run_order_step_events:
  "\<exists>ev. fst (snd (run_order_step c h n symbol)) = h @ ev
        \<and> filter is_analyzing ev = [] \<and> filter is_get_bars ev = []
        \<and> length (filter is_order ev) \<le> 1"
  by (auto simp: run_order_step_def Let_def split: sum.splits option.splits order_handle.splits)

lemma run_symbol_events:
  "\<exists>ev. fst (run_symbol c h n symbol) = h @ ev
        \<and> filter is_analyzing ev = [Print (Analyzing symbol)]
        \<and> filter is_get_bars ev = [GetBars symbol]
        \<and> length (filter is_order ev) \<le> 1"
proof -
  let ?h0 = "h @ [Print (Analyzing symbol)]"
  obtain up h1 where u: "is_in_uptrend c ?h0 symbol = (up, h1)"
    by (cases "is_in_uptrend c ?h0 symbol")
  obtain ev1 where ev1: "h1 = ?h0 @ ev1" "filter is_order ev1 = []" "filter is_analyzing ev1 = []"
      "filter is_get_bars ev1 = [GetBars symbol]"
    using is_in_uptrend_events[of c ?h0 symbol] u by auto
  show ?thesis
  proof (cases up)
    case False
    then have "fst (run_symbol c h n symbol) = h @ (Print (Analyzing symbol) # ev1 @ [Print (SkipTrend symbol)])"
      using u ev1(1) by (simp add: run_symbol_def)
    then show ?thesis using ev1
      by (intro exI[of _ "Print (Analyzing symbol) # ev1 @ [Print (SkipTrend symbol)]"]) simp
  next
    case True
    obtain r h2 n' where s: "run_order_step c h1 n symbol = (r, h2, n')"
      by (cases "run_order_step c h1 n symbol")
    obtain ev2 where ev2: "h2 = h1 @ ev2" "filter is_analyzing ev2 = []" "filter is_get_bars ev2 = []"
        "length (filter is_order ev2) \<le> 1"
      using run_order_step_events[of c h1 n symbol] s by auto
    show ?thesis
    proof (cases r)
      case None
      then have "fst (run_symbol c h n symbol) = h @ (Print (Analyzing symbol) # ev1 @ ev2)"
        using u True s ev1(1) ev2(1) by (simp add: run_symbol_def)
      then show ?thesis using ev1 ev2
        by (intro exI[of _ "Print (Analyzing symbol) # ev1 @ ev2"]) simp
    next
      case (Some e)
      then have "fst (run_symbol c h n symbol) =
          h @ (Print (Analyzing symbol) # ev1 @ ev2 @ [Print (ProcessError symbol e)])"
        using u True s ev1(1) ev2(1) by (simp add: run_symbol_def)
      then show ?thesis using ev1 ev2
        by (intro exI[of _ "Print (Analyzing symbol) # ev1 @ ev2 @ [Print (ProcessError symbol e)]"]) simp
    qed
  qed
qed

lemma run_loop_events:
  "\<exists>ev. fst (run_loop c symbols h n) = h @ ev
        \<and> filter is_analyzing ev = map (\<lambda>s. Print (Analyzing s)) symbols
        \<and> filter is_get_bars ev = map GetBars symbols
        \<and> length (filter is_order ev) \<le> length symbols"
proof (induction symbols arbitrary: h n)
  case Nil
  show ?case by simp
next
  case (Cons s ss)
  obtain h1 n1 where r: "run_symbol c h n s = (h1, n1)"
    by (cases "run_symbol c h n s")
  obtain ev1 where ev1: "h1 = h @ ev1" "filter is_analyzing ev1 = [Print (Analyzing s)]"
      "filter is_get_bars ev1 = [GetBars s]" "length (filter is_order ev1) \<le> 1"
    using run_symbol_events[of c h n s] r by auto
  obtain ev2 where ev2: "fst (run_loop c ss h1 n1) = h1 @ ev2"
      "filter is_analyzing ev2 = map (\<lambda>s. Print (Analyzing s)) ss"
      "filter is_get_bars ev2 = map GetBars ss" "length (filter is_order ev2) \<le> length ss"
    using Cons.IH[of h1 n1] by auto
  have "fst (run_loop c (s # ss) h n) = h @ (ev1 @ ev2)"
    using r ev1(1) ev2(1) by simp
  then show ?case using ev1 ev2 by (intro exI[of _ "ev1 @ ev2"]) simp
qed

lemma run_preamble_events:
  "filter is_order (run_preamble sid) = []" "filter is_analyzing (run_preamble sid) = []"
  "filter is_get_bars (run_preamble sid) = []"
  by (simp_all add: run_preamble_def)

text \<open>
  Claim C4. When the client is initialised and the risk gate answers risky, the run
  returns right after the gate: its events are those of the gate followed by the one
  line that announces the skip. No order is submitted, no symbol of the universe is
  analysed, and the only bars fetched are those of the benchmark, so no trend check is
  made for any symbol.
\<close>

theorem run_halts_when_risky:
  assumes init: "initialize_client w = Inr (c, sid)"
    and risky: "fst (is_market_risky c (run_preamble sid))"
  shows "run w = (None, snd (is_market_risky c (run_preamble sid)) @ [Print SkipAll])
       \<and> filter is_order (snd (run w)) = []
       \<and> filter is_analyzing (snd (run w)) = []
       \<and> filter is_get_bars (snd (run w)) = [GetBars ''SPY'']"
proof -
  have r: "run w = (None, snd (is_market_risky c (run_preamble sid)) @ [Print SkipAll])"
    using init risky by (simp add: run_def split_beta)
  obtain ev where ev: "snd (is_market_risky c (run_preamble sid)) = run_preamble sid @ ev"
      "filter is_order ev = []" "filter is_analyzing ev = []"
      "filter is_get_bars ev = [GetBars ''SPY'']"
    using is_market_risky_events[of c "run_preamble sid"] by blast
  show ?thesis unfolding r using ev by (simp add: run_preamble_events)
qed

theorem run_halts_when_risky_witness:
  "run (example_world rising_bars (Inr (Some (quote_at 10)))) =
     (None, run_preamble ''demo'' @ [GetBars ''SPY'', Print (RsiRisky (Flt 100)), Print SkipAll])
   \<and> filter is_order (snd (run (example_world rising_bars (Inr (Some (quote_at 10)))))) = []
   \<and> filter is_get_bars (snd (run (example_world rising_bars (Inr (Some (quote_at 10)))))) = [GetBars ''SPY'']"
proof -
  let ?c = "example_client rising_bars (Inr (Some (quote_at 10)))"
  have rising_ne: "rising_bars \<noteq> []" by (simp add: rising_bars_def)
  have g: "is_market_risky ?c (run_preamble ''demo'') =
      (True, run_preamble ''demo'' @ [GetBars ''SPY'', Print (RsiRisky (Flt 100))])"
    using rising_ne
    by (simp add: is_market_risky_def is_market_risky_body_def example_spy_closes
          RSI_PERIOD_def RSI_THRESHOLD_def rsi_rising_bars Let_def)
  then have "fst (is_market_risky ?c (run_preamble ''demo''))" by simp
  from run_halts_when_risky [OF example_initialize this] g show ?thesis
    by (simp add: run_preamble_events)
qed

text \<open>
  Claim C6. When the client is initialised and the risk gate answers not risky, then for
  every client, however its quote fetches and order submissions raise, the run returns
  normally; every symbol of the universe is analysed and has its trend check made, once
  and in the declared order; and the run ends with its summary. An exception raised in
  the order step of a symbol (by the quote fetch in particular) is caught by the loop
  body, which logs it for that symbol and completes.
\<close>

theorem run_isolates_symbol_failures:
  assumes init: "initialize_client w = Inr (c, sid)"
    and calm: "\<not> fst (is_market_risky c (run_preamble sid))"
  shows "fst (run w) = None
       \<and> filter is_analyzing (snd (run w)) = map (\<lambda>s. Print (Analyzing s)) SYMBOLS
       \<and> filter is_get_bars (snd (run w)) = GetBars ''SPY'' # map GetBars SYMBOLS
       \<and> (\<exists>h' m. snd (run w) = h' @ [Print EndRule60, Print (Summary m (length SYMBOLS)), Print Rule60])
       \<and> (is_in_uptrend c (h @ [Print (Analyzing symbol)]) symbol = (True, h_trend)
            \<and> run_order_step c h_trend n symbol = (Some e, h_step, n_step)
            \<longrightarrow> run_symbol c h n symbol = (h_step @ [Print (ProcessError symbol e)], n_step))
       \<and> (is_in_uptrend c (h @ [Print (Analyzing symbol)]) symbol = (True, h_trend)
            \<and> get_latest_quote c h_trend symbol = Inl e
            \<longrightarrow> run_symbol c h n symbol =
                  (h_trend @ [GetLatestQuote symbol, Print (ProcessError symbol e)], n))"
proof -
  obtain risky hg where g: "is_market_risky c (run_preamble sid) = (risky, hg)"
    by (cases "is_market_risky c (run_preamble sid)")
  then have nr: "\<not> risky" using calm by simp
  obtain evg where evg: "hg = run_preamble sid @ evg"
      "filter is_analyzing evg = []" "filter is_get_bars evg = [GetBars ''SPY'']"
    using is_market_risky_events[of c "run_preamble sid"] g by auto
  let ?h3 = "hg @ [Print MarketOk, Print Rule40]"
  obtain h4 m where l: "run_loop c SYMBOLS ?h3 0 = (h4, m)"
    by (cases "run_loop c SYMBOLS ?h3 0")
  obtain evl where evl: "h4 = ?h3 @ evl"
      "filter is_analyzing evl = map (\<lambda>s. Print (Analyzing s)) SYMBOLS"
      "filter is_get_bars evl = map GetBars SYMBOLS"
    using run_loop_events[of c SYMBOLS ?h3 0] l by auto
  have r: "run w = (None, h4 @ [Print EndRule60, Print (Summary m (length SYMBOLS)), Print Rule60])"
    using init g nr l by (simp add: run_def)
  have a: "fst (run w) = None" using r by simp
  have b: "filter is_analyzing (snd (run w)) = map (\<lambda>s. Print (Analyzing s)) SYMBOLS"
    unfolding r using evg evl by (simp add: run_preamble_events)
  have c: "filter is_get_bars (snd (run w)) = GetBars ''SPY'' # map GetBars SYMBOLS"
    unfolding r using evg evl by (simp add: run_preamble_events)
  have d: "\<exists>h' m. snd (run w) = h' @ [Print EndRule60, Print (Summary m (length SYMBOLS)), Print Rule60]"
    using r by auto
  have e1: "run_symbol c h n symbol = (h_step @ [Print (ProcessError symbol e)], n_step)"
    if "is_in_uptrend c (h @ [Print (Analyzing symbol)]) symbol = (True, h_trend)
        \<and> run_order_step c h_trend n symbol = (Some e, h_step, n_step)"
    using that by (simp add: run_symbol_def)
  have e2: "run_symbol c h n symbol = (h_trend @ [GetLatestQuote symbol, Print (ProcessError symbol e)], n)"
    if "is_in_uptrend c (h @ [Print (Analyzing symbol)]) symbol = (True, h_trend)
        \<and> get_latest_quote c h_trend symbol = Inl e"
    using that by (simp add: run_symbol_def run_order_step_def)
  from a b c d e1 e2 show ?thesis by blast
qed

theorem run_isolates_symbol_failures_witness:
  "fst (run (example_world falling_bars (Inr (Some (quote_at 20))))) = None
   \<and> filter is_analyzing (snd (run (example_world falling_bars (Inr (Some (quote_at 20)))))) =
       [Print (Analyzing ''NVDA''), Print (Analyzing ''TSLA''), Print (Analyzing ''AMD''),
        Print (Analyzing ''QBTS''), Print (Analyzing ''RKLB'')]
   \<and> (\<exists>h' m. snd (run (example_world falling_bars (Inr (Some (quote_at 20))))) =
         h' @ [Print EndRule60, Print (Summary m (length SYMBOLS)), Print Rule60])
   \<and> run_symbol (example_client falling_bars (Inr (Some (quote_at 20)))) [] 0 ''NVDA'' =
       ([Print (Analyzing ''NVDA''), GetBars ''NVDA'', Print (Trend ''NVDA'' 21 (Flt (211 / 20)) True),
         GetLatestQuote ''NVDA'', Print (ProcessError ''NVDA'' ''timeout'')], 0)"
proof -
  let ?c = "example_client falling_bars (Inr (Some (quote_at 20)))"
  have g: "\<not> fst (is_market_risky ?c (run_preamble ''demo''))"
    by (simp add: is_market_risky_def is_market_risky_body_def example_spy_closes vix_check_def
          example_vix_quote RSI_PERIOD_def RSI_THRESHOLD_def VIX_THRESHOLD_def rsi_falling_bars quote_at_def
          Let_def)
  have up: "is_in_uptrend ?c ([] @ [Print (Analyzing ''NVDA'')]) ''NVDA'' =
      (True, [Print (Analyzing ''NVDA''), GetBars ''NVDA'', Print (Trend ''NVDA'' 21 (Flt (211 / 20)) True)])"
    by (simp add: is_in_uptrend_def is_in_uptrend_body_def get_historical_closes_def example_client_def
          rising_bars_def SMA_PERIOD_def calculate_sma_def slice_from_def np_mean_def)
  have q: "get_latest_quote ?c h ''NVDA'' = Inl ''timeout''" for h
    by (simp add: example_client_def)
  have step: "run_order_step ?c
        [Print (Analyzing ''NVDA''), GetBars ''NVDA'', Print (Trend ''NVDA'' 21 (Flt (211 / 20)) True)]
        0 ''NVDA'' =
      (Some ''timeout'',
       [Print (Analyzing ''NVDA''), GetBars ''NVDA'', Print (Trend ''NVDA'' 21 (Flt (211 / 20)) True),
        GetLatestQuote ''NVDA''], 0)"
    by (simp add: run_order_step_def q)
  have syms: "map (\<lambda>s. Print (Analyzing s)) SYMBOLS =
      [Print (Analyzing ''NVDA''), Print (Analyzing ''TSLA''), Print (Analyzing ''AMD''),
       Print (Analyzing ''QBTS''), Print (Analyzing ''RKLB'')]"
    by (simp add: SYMBOLS_def)
  from run_isolates_symbol_failures [where h = "[]" and symbol = "''NVDA''" and n = 0 and e = "''timeout''"
         and h_trend = "[Print (Analyzing ''NVDA''), GetBars ''NVDA'', Print (Trend ''NVDA'' 21 (Flt (211 / 20)) True)]"
         and h_step = "[Print (Analyzing ''NVDA''), GetBars ''NVDA'', Print (Trend ''NVDA'' 21 (Flt (211 / 20)) True),
                        GetLatestQuote ''NVDA'']"
         and n_step = 0,
         OF example_initialize g] up q step
  show ?thesis by (simp add: syms)
qed

text \<open>
  A whole run against the example client, with a calm market: the quote of NVDA raises,
  TSLA is bought (2 shares at 45), AMD has too little data, the order for QBTS raises,
  and RKLB at 150 is beyond the budget. Each failure is logged and the run goes on to
  its summary.
\<close>

lemma run_example_trace:
  "run (example_world falling_bars (Inr (Some (quote_at 20)))) =
    (None,
     [Print Rule60, Print Title, Print Rule60, Print (StrategyId ''demo''),
      Print (Universe [''NVDA'', ''TSLA'', ''AMD'', ''QBTS'', ''RKLB'']),
      Print (DcaAmount 100), Print Blank, Print Checking, GetBars ''SPY'',
      GetLatestQuote ''VIX'', Print MarketOk, Print Rule40,
      Print (Analyzing ''NVDA''), GetBars ''NVDA'',
      Print (Trend ''NVDA'' 21 (Flt (211 / 20)) True), GetLatestQuote ''NVDA'',
      Print (ProcessError ''NVDA'' ''timeout''),
      Print (Analyzing ''TSLA''), GetBars ''TSLA'',
      Print (Trend ''TSLA'' 21 (Flt (211 / 20)) True), GetLatestQuote ''TSLA'',
      Print (Buy ''TSLA'' 2 45), SubmitOrder ''TSLA'' 2 ''buy'' ''market'',
      Print (OrderPlaced ''TSLA'' ''order-1''),
      Print (Analyzing ''AMD''), GetBars ''AMD'', Print (NotEnoughData ''AMD''),
      Print (SkipTrend ''AMD''),
      Print (Analyzing ''QBTS''), GetBars ''QBTS'',
      Print (Trend ''QBTS'' 21 (Flt (211 / 20)) True), GetLatestQuote ''QBTS'',
      Print (Buy ''QBTS'' 2 45), SubmitOrder ''QBTS'' 2 ''buy'' ''market'',
      Print (ProcessError ''QBTS'' ''rejected''),
      Print (Analyzing ''RKLB''), GetBars ''RKLB'',
      Print (Trend ''RKLB'' 21 (Flt (211 / 20)) True), GetLatestQuote ''RKLB'',
      Print (SkipShares ''RKLB'' 150),
      Print EndRule60, Print (Summary 1 5), Print Rule60])"
  by code_simp

end
